theory Spec2Isabelle
  imports Complex_Main
begin

section \<open>JavaScript strings\<close>

text \<open>
  Strings are byte lists. \<open>toLowerCase\<close> and \<open>trim\<close> are modelled on ASCII: the letters
  \<open>A\<close>..\<open>Z\<close> are lowered, and the white space removed by \<open>trim\<close> is space, tab, line
  feed, vertical tab, form feed and carriage return. \<open>includesStr a b\<close> is \<open>a.includes(b)\<close>:
  \<open>b\<close> occurs in \<open>a\<close> as a contiguous run.
\<close>

definition toLowerChar :: "char \<Rightarrow> char" where
  "toLowerChar c =
     (let n = (of_char c :: nat) in if 65 \<le> n \<and> n \<le> 90 then char_of (n + 32) else c)"

definition toLowerCase :: "string \<Rightarrow> string" where
  "toLowerCase s = map toLowerChar s"

definition isSpace :: "char \<Rightarrow> bool" where
  "isSpace c = ((of_char c :: nat) \<in> {32, 9, 10, 11, 12, 13})"

definition trim :: "string \<Rightarrow> string" where
  "trim s = rev (dropWhile isSpace (rev (dropWhile isSpace s)))"

fun includesStr :: "string \<Rightarrow> string \<Rightarrow> bool" where
  "includesStr [] sub = (sub = [])"
| "includesStr (c # cs) sub = (take (length sub) (c # cs) = sub \<or> includesStr cs sub)"

text \<open>\<open>x || d\<close> on an optional string: an absent or empty string is falsy.\<close>

definition orElse :: "string option \<Rightarrow> string \<Rightarrow> string" where
  "orElse x d = (case x of None \<Rightarrow> d | Some s \<Rightarrow> if s = [] then d else s)"

text \<open>\<open>Math.ceil(a / b)\<close> on array lengths, for \<open>b > 0\<close>.\<close>

definition ceilDiv :: "nat \<Rightarrow> nat \<Rightarrow> nat" where
  "ceilDiv a b = (a + b - 1) div b"

text \<open>\<open>xs.slice(a, b)\<close> for non-negative indices: empty when \<open>b \<le> a\<close>.\<close>

definition slice :: "'a list \<Rightarrow> nat \<Rightarrow> nat \<Rightarrow> 'a list" where
  "slice xs a b = take (b - a) (drop a xs)"

section \<open>Dates (ItineraryPage.jsx)\<close>

text \<open>
  A valid \<open>Date\<close> is its time value, the milliseconds since the epoch. A value that is
  \<open>null\<close> and a \<open>Date\<close> whose time is \<open>NaN\<close> are both \<open>None\<close>: every test the code
  makes on a date object is \<open>!d || isNaN(d.getTime())\<close>, which does not tell them apart.
  \<open>setDate(getDate() + 1)\<close> works in local time: it moves a date to the same wall-clock
  time on the next local calendar day, \<open>UTC(LocalTime(t) + msPerDay)\<close> in the words of
  ECMAScript. That is a step of 24 hours, except across a change of the zone's UTC offset,
  where it is 23 or 25 hours at a daylight-saving change. A time zone is modelled by this
  step on time values, \<open>nextDay\<close>; the one property required of it is that it moves
  time forward, as the step of every zone does. \<open>localStep\<close> builds the step from the two
  offset functions of ECMAScript (\<open>LocalTZA(t, true)\<close> and \<open>LocalTZA(t, false)\<close>).
  Two zones are defined: \<open>utc\<close>, with offset 0, and \<open>newYork\<close>, America/New_York around
  the end of daylight-saving time on 2 November 2025, 06:00 UTC (02:00 local): offset
  \<open>-4\<close> hours before it and \<open>-5\<close> hours after it; a local time that occurs twice is read
  with the offset before the change, as ECMAScript prescribes. The other changes of
  offset of that zone are not represented.

  A date argument is absent, a \<open>Date\<close> object, or a string. The string grammar of
  \<open>parseDate\<close> rests on the engine's \<open>new Date(string)\<close> and is taken as a parameter
  \<open>parse\<close>; every path of \<open>parseDate\<close> that returns a date has checked that it is valid.
\<close>

definition DAY :: int where
  "DAY = 1000 * 60 * 60 * 24"

datatype date_arg = Missing | DateObj "int option" | DateStr string

definition truthy :: "date_arg \<Rightarrow> bool" where
  "truthy d = (case d of Missing \<Rightarrow> False | DateObj t \<Rightarrow> True | DateStr s \<Rightarrow> s \<noteq> [])"

definition parseDate :: "(string \<Rightarrow> int option) \<Rightarrow> date_arg \<Rightarrow> int option" where
  "parseDate parse d =
     (case d of
        Missing \<Rightarrow> None
      | DateObj t \<Rightarrow> t
      | DateStr s \<Rightarrow> if s = [] then None else parse s)"

typedef zone = "{f :: int \<Rightarrow> int. \<forall>t. t < f t}"
  morphisms nextDay Zone
  by (rule exI [of _ "\<lambda>t. t + 1"]) simp

setup_lifting type_definition_zone

definition localStep :: "(int \<Rightarrow> int) \<Rightarrow> (int \<Rightarrow> int) \<Rightarrow> int \<Rightarrow> int" where
  "localStep offsetAtUTC offsetAtLocal t =
     (let localTime = t + offsetAtUTC t + DAY in localTime - offsetAtLocal localTime)"

lift_definition utc :: zone is "localStep (\<lambda>t. 0) (\<lambda>l. 0)"
  by (simp add: localStep_def DAY_def)

lift_definition newYork :: zone is
  "localStep (\<lambda>t. if t < 1762063200000 then - 14400000 else - 18000000)
             (\<lambda>l. if l < 1762048800000 then - 14400000 else - 18000000)"
  by (simp add: localStep_def DAY_def)

text \<open>The loop \<open>while (currentDate <= endDateObj) { dates.push(new Date(currentDate));
  currentDate.setDate(currentDate.getDate() + 1) }\<close>.\<close>

function dateLoop :: "zone \<Rightarrow> int \<Rightarrow> int \<Rightarrow> int list" where
  "dateLoop z currentDate endDateObj =
     (if currentDate \<le> endDateObj
      then currentDate # dateLoop z (nextDay z currentDate) endDateObj
      else [])"
  by pat_completeness auto
termination
proof (relation "measure (\<lambda>(z, c, e). nat (e - c + 1))")
  show "wf (measure (\<lambda>(z, c, e). nat (e - c + 1)))" by simp
next
  fix z :: zone and currentDate endDateObj :: int
  assume "currentDate \<le> endDateObj"
  moreover have "currentDate < nextDay z currentDate"
    using nextDay [of z] by simp
  ultimately show "((z, nextDay z currentDate, endDateObj), (z, currentDate, endDateObj))
                     \<in> measure (\<lambda>(z, c, e). nat (e - c + 1))"
    by simp
qed

declare dateLoop.simps [simp del]

definition buildDateRange ::
  "zone \<Rightarrow> (string \<Rightarrow> int option) \<Rightarrow> date_arg \<Rightarrow> date_arg \<Rightarrow> int list" where
  "buildDateRange z parse startDate endDate =
     (let start = parseDate parse startDate;
          endP = parseDate parse endDate
      in case start of
           None \<Rightarrow> []
         | Some s \<Rightarrow>
             (let endDateObj = (case endP of Some e \<Rightarrow> e | None \<Rightarrow> s)
              in dateLoop z s endDateObj))"

section \<open>The itinerary data model\<close>

text \<open>
  An item keeps the fields that decide which item goes on which day: \<open>type\<close>,
  \<open>title\<close> and the two flags \<open>isMustDo\<close> and \<open>isOpenExploration\<close> (absent in the source
  means false). The display payload (\<open>time\<close>, \<open>details\<close>, the formatted \<open>date\<close> string) is
  computed from the same inputs without influencing the placement and is left out.
  A day's \<open>day\<close> number is \<open>null\<close> in the source until the final numbering pass; the
  model writes 0 there. The arguments \<open>selectedActivity\<close> and \<open>routeInfo\<close> feed the display
  payload only and are not parameters of the model. Fields have the types the code uses
  them at (a name is a string, \<open>isDummy\<close> a boolean); an optional field is \<open>None\<close> when
  it is \<open>undefined\<close> or \<open>null\<close>.

  The model therefore covers the well-typed inputs only. On an ill-typed one the payload
  computation of the source can throw: \<open>flight.departure.match(..)\<close> (lines 1722--1723,
  and 2075--2076 for the return flight) is a \<open>TypeError\<close> when \<open>departure\<close> is a truthy
  value that is not a string. Nothing is stated below about such inputs.
\<close>

datatype error = InvalidStartDate

datatype item_type = Flight | Hotel | Activity

record item =
  itype :: item_type
  title :: string
  isMustDo :: bool
  isOpenExploration :: bool

record itinerary_day =
  day :: nat
  dateObj :: int
  items :: "item list"

record flight =
  fid :: "string option"
  airline :: "string option"
  flightNumber :: "string option"

record hotel =
  hname :: "string option"
  isDummy :: bool

record activity =
  aname :: "string option"
  acategory :: "string option"
  atype :: "string option"

text \<open>
  A stored must-do entry always has a name: both insert paths of tripState.js skip an
  incoming activity without one.
\<close>

record mustDoActivity =
  name :: string
  category :: "string option"

record preferences =
  guidedTour :: bool
  categories :: "string list"

text \<open>
  The slice of the trip store that \<open>createDayByDayItinerary\<close> reads through
  \<open>loadTripState()\<close>. \<open>tsPreferences = None\<close> is an absent or empty preferences object.
\<close>

record tripState =
  mustDoActivities :: "mustDoActivity list"
  tsPreferences :: "preferences option"
  tsStartDate :: date_arg
  tsEndDate :: date_arg

section \<open>createDayByDayItinerary, current copy (ItineraryPage.jsx, lines 1573--2137)\<close>

definition mkItem :: "item_type \<Rightarrow> string \<Rightarrow> item" where
  "mkItem t s = \<lparr>itype = t, title = s, isMustDo = False, isOpenExploration = False\<rparr>"

definition isDummyFlight :: "flight \<Rightarrow> bool" where
  "isDummyFlight f =
     (fid f = Some ''dummy-flight'' \<or> flightNumber f = Some ''FL123'' \<or> airline f = Some ''Airline'')"

definition flightNeeded :: item where
  "flightNeeded = mkItem Activity ''Flight Needed''"

definition returnFlightNeeded :: item where
  "returnFlightNeeded = mkItem Activity ''Return Flight Needed''"

definition openExploration :: item where
  "openExploration =
     \<lparr>itype = Activity, title = ''Open Exploration'', isMustDo = False, isOpenExploration = True\<rparr>"

definition hotelItems :: "hotel option \<Rightarrow> item list" where
  "hotelItems h =
     (case h of
        None \<Rightarrow> []
      | Some x \<Rightarrow> if \<not> isDummy x then [mkItem Hotel (orElse (hname x) ''Hotel'')] else [])"

definition day1Items :: "flight option \<Rightarrow> hotel option \<Rightarrow> item list" where
  "day1Items fl h =
     (case fl of
        None \<Rightarrow> [flightNeeded]
      | Some f \<Rightarrow>
          if \<not> isDummyFlight f
          then [mkItem Flight (orElse (airline f) ''Flight'' @ '' '' @ orElse (flightNumber f) [])]
          else [flightNeeded])
     @ hotelItems h"

definition lastDayItems :: "flight option \<Rightarrow> item list" where
  "lastDayItems rf =
     (case rf of
        None \<Rightarrow> [returnFlightNeeded]
      | Some f \<Rightarrow>
          if isDummyFlight f then [returnFlightNeeded]
          else (let t = trim (orElse (airline f) ''Return Flight'' @ '' '' @ orElse (flightNumber f) [])
                in [mkItem Flight (if t = [] then ''Return Flight'' else t)]))"

text \<open>An activity is set aside as a must-do when its name equals, contains or is contained
  in a must-do name (lower-cased, trimmed).\<close>

definition matchesMustDo :: "mustDoActivity list \<Rightarrow> activity \<Rightarrow> bool" where
  "matchesMustDo mustDos act =
     (let actName = trim (toLowerCase (orElse (aname act) []))
      in list_ex (\<lambda>mustDo.
           let mustDoName = trim (toLowerCase (name mustDo))
           in actName = mustDoName \<or> includesStr actName mustDoName \<or> includesStr mustDoName actName)
         mustDos)"

text \<open>The distribution plan: one entry per interior day, each taking
  \<open>min(2, length - mustDoIndex)\<close> entries from \<open>mustDoIndex\<close> on. The argument list is what
  remains from \<open>mustDoIndex\<close>.\<close>

fun mustDoDistribution :: "nat \<Rightarrow> 'a list \<Rightarrow> 'a list list" where
  "mustDoDistribution 0 rest = []"
| "mustDoDistribution (Suc n) rest =
     (let count = min 2 (length rest)
      in (if count > 0 then take count rest else []) # mustDoDistribution n (drop count rest))"

definition prefFilter :: "preferences option \<Rightarrow> activity \<Rightarrow> bool" where
  "prefFilter prefs act =
     (case prefs of
        None \<Rightarrow> True
      | Some p \<Rightarrow>
          (let actCategory = toLowerCase (orElse (acategory act) (orElse (atype act) []));
               preferredCategories = map toLowerCase (categories p)
           in if guidedTour p \<and> (includesStr actCategory ''tour'' \<or> includesStr actCategory ''guided'')
              then True
              else if length preferredCategories > 0
              then list_ex (\<lambda>prefCat.
                     includesStr actCategory prefCat \<or>
                     (case aname act of None \<Rightarrow> False | Some n \<Rightarrow> includesStr (toLowerCase n) prefCat))
                   preferredCategories
              else True))"

definition mustDoItem :: "mustDoActivity \<Rightarrow> item" where
  "mustDoItem mustDo =
     \<lparr>itype = Activity, title = name mustDo, isMustDo = True, isOpenExploration = False\<rparr>"

definition activityItem :: "activity \<Rightarrow> item" where
  "activityItem act = mkItem Activity (orElse (aname act) ''Activity'')"

definition middleDayItems ::
  "hotel option \<Rightarrow> mustDoActivity list list \<Rightarrow> activity list \<Rightarrow> nat \<Rightarrow> nat \<Rightarrow> item list" where
  "middleDayItems h plan filteredRegularActivities actualMiddleDays dayIndex =
     (let mustDoForDay = (if dayIndex < length plan then plan ! dayIndex else []);
          dayItems1 = map mustDoItem mustDoForDay;
          remainingSlots = 2 - length dayItems1;
          dayItems2 = dayItems1 @
            (if remainingSlots > 0 \<and> length filteredRegularActivities > 0 \<and> actualMiddleDays > 0
             then (let activitiesPerDay = ceilDiv (length filteredRegularActivities) actualMiddleDays;
                       startIdx = dayIndex * activitiesPerDay;
                       endIdx = min (startIdx + remainingSlots) (length filteredRegularActivities)
                   in map activityItem (slice filteredRegularActivities startIdx endIdx))
             else []);
          hasActivities = list_ex (\<lambda>i. itype i = Activity \<and> \<not> isOpenExploration i) dayItems2;
          dayItems3 = dayItems2 @ (if \<not> hasActivities then [openExploration] else [])
      in dayItems3 @ hotelItems h)"

definition mkDay :: "int \<Rightarrow> item list \<Rightarrow> itinerary_day" where
  "mkDay d its = \<lparr>day = 0, dateObj = d, items = its\<rparr>"

text \<open>The block of the interior days (lines 1801--2007). \<open>mustDoPerDay\<close> is computed as in
  the source, which never reads it afterwards.\<close>

definition middleDaysOf ::
  "tripState \<Rightarrow> hotel option \<Rightarrow> activity list \<Rightarrow> bool \<Rightarrow> int list \<Rightarrow> itinerary_day list" where
  "middleDaysOf ts h allActivities isRoundTrip dateRange =
     (let middleDays = (if isRoundTrip then butlast (tl dateRange) else tl dateRange);
          actualMiddleDays = length middleDays;
          regularActivities = filter (\<lambda>act. \<not> matchesMustDo (mustDoActivities ts) act) allActivities;
          mustDoPerDay = (if actualMiddleDays > 0
                          then ceilDiv (length (mustDoActivities ts)) actualMiddleDays else 0);
          plan = mustDoDistribution actualMiddleDays (mustDoActivities ts);
          filteredRegularActivities = filter (prefFilter (tsPreferences ts)) regularActivities
      in map (\<lambda>i. mkDay (middleDays ! i)
                     (middleDayItems h plan filteredRegularActivities actualMiddleDays i))
           [0 ..< length middleDays])"

text \<open>\<open>days.sort\<close> by date (a stable sort), then \<open>day = index + 1\<close>.\<close>

definition numberDays :: "itinerary_day list \<Rightarrow> itinerary_day list" where
  "numberDays ds = map (\<lambda>(i, d). d\<lparr>day := i + 1\<rparr>) (enumerate 0 (sort_key dateObj ds))"

text \<open>The resolution of a date: the trip store first, the function argument as fallback.\<close>

definition resolveDate :: "(string \<Rightarrow> int option) \<Rightarrow> date_arg \<Rightarrow> date_arg \<Rightarrow> int option" where
  "resolveDate parse tripDate argDate =
     (let tripD = (if truthy tripDate then tripDate else argDate);
          obj0 = (if truthy tripD then parseDate parse tripD else None)
      in if obj0 = None
         then (case argDate of
                 DateObj t \<Rightarrow> t
               | _ \<Rightarrow> if truthy argDate then parseDate parse argDate else obj0)
         else obj0)"

definition createDayByDayItinerary ::
  "zone \<Rightarrow> (string \<Rightarrow> int option) \<Rightarrow> tripState \<Rightarrow> flight option \<Rightarrow> hotel option \<Rightarrow>
   activity list \<Rightarrow> date_arg \<Rightarrow> date_arg \<Rightarrow> flight option \<Rightarrow> error + itinerary_day list" where
  "createDayByDayItinerary z parse ts fl h allActivities startDate endDate returnFlight =
     (case resolveDate parse (tsStartDate ts) startDate of
        None \<Rightarrow> Inl InvalidStartDate
      | Some startDateObj \<Rightarrow>
          (let endDateObj = (case resolveDate parse (tsEndDate ts) endDate of
                               None \<Rightarrow> startDateObj | Some e \<Rightarrow> e);
               dateRange = buildDateRange z parse (DateObj (Some startDateObj)) (DateObj (Some endDateObj));
               daysDiff = length dateRange;
               isRoundTrip = (endDateObj \<noteq> startDateObj);
               days1 = (if length dateRange > 0 then [mkDay (hd dateRange) (day1Items fl h)] else []);
               days2 = (if daysDiff > 1 then middleDaysOf ts h allActivities isRoundTrip dateRange
                        else []);
               days3 = (if isRoundTrip \<and> length dateRange > 0
                        then [mkDay (last dateRange) (lastDayItems returnFlight)] else [])
           in Inr (numberDays (days1 @ days2 @ days3))))"

section \<open>createDayByDayItinerary, legacy copy (ItineraryPage.jsx, lines 3844--4057)\<close>

text \<open>
  The legacy copy reads the dates from its arguments only, always puts a flight item on
  day 1, and never reads the must-do list. \<open>toISOString().split('T')[0]\<close> is the UTC
  calendar day of a time value, \<open>t div DAY\<close>.
\<close>

definition argDate :: "(string \<Rightarrow> int option) \<Rightarrow> date_arg \<Rightarrow> int option" where
  "argDate parse d =
     (case d of
        DateObj t \<Rightarrow> t
      | _ \<Rightarrow> if truthy d then parseDate parse d else None)"

text \<open>\<open>Math.ceil(x / d)\<close> on integers, for \<open>d > 0\<close>.\<close>

definition ceilInt :: "int \<Rightarrow> int \<Rightarrow> int" where
  "ceilInt x d = - ((- x) div d)"

definition legacyMiddleDay ::
  "hotel option \<Rightarrow> activity list \<Rightarrow> int \<Rightarrow> int \<Rightarrow> nat \<Rightarrow> nat \<Rightarrow> itinerary_day list" where
  "legacyMiddleDay h allActivities s e maxMiddleDays i =
     (let currentDate = s + int i * DAY
      in if currentDate div DAY = e div DAY then []
         else (let activitiesPerDay = ceilDiv (length allActivities) maxMiddleDays;
                   startIdx = (i - 1) * activitiesPerDay;
                   endIdx = startIdx + activitiesPerDay;
                   dayActivities = slice allActivities startIdx endIdx
               in [mkDay currentDate (map activityItem dayActivities @ hotelItems h)]))"

definition legacyMiddleDays ::
  "hotel option \<Rightarrow> activity list \<Rightarrow> int \<Rightarrow> int \<Rightarrow> int \<Rightarrow> itinerary_day list" where
  "legacyMiddleDays h allActivities s e daysDiff =
     (let maxMiddleDays = nat (min (daysDiff - 1) 5)
      in concat (map (legacyMiddleDay h allActivities s e maxMiddleDays) [1 ..< maxMiddleDays + 1]))"

definition createDayByDayItinerary_legacy ::
  "(string \<Rightarrow> int option) \<Rightarrow> flight option \<Rightarrow> hotel option \<Rightarrow> activity list \<Rightarrow>
   date_arg \<Rightarrow> date_arg \<Rightarrow> flight option \<Rightarrow> error + itinerary_day list" where
  "createDayByDayItinerary_legacy parse fl h allActivities startDate endDate returnFlight =
     (case argDate parse startDate of
        None \<Rightarrow> Inl InvalidStartDate
      | Some startDateObj \<Rightarrow>
          (let endDateObj = (case argDate parse endDate of None \<Rightarrow> startDateObj | Some e \<Rightarrow> e);
               isRoundTrip = (endDateObj \<noteq> startDateObj);
               daysDiff = (if isRoundTrip then max 1 (ceilInt (endDateObj - startDateObj) DAY) else 1);
               day1 = [mkItem Flight
                         (orElse (case fl of None \<Rightarrow> None | Some f \<Rightarrow> airline f) ''Flight'' @ '' '' @
                          orElse (case fl of None \<Rightarrow> None | Some f \<Rightarrow> flightNumber f) [])]
                      @ hotelItems h;
               days1 = [mkDay startDateObj day1];
               days2 = (if isRoundTrip \<and> daysDiff > 1
                        then legacyMiddleDays h allActivities startDateObj endDateObj daysDiff
                        else []);
               days3 = (if isRoundTrip \<and> endDateObj > startDateObj
                        then [mkDay endDateObj
                                [mkItem Flight
                                   (orElse (case returnFlight of None \<Rightarrow> None | Some f \<Rightarrow> airline f)
                                      ''Return'' @ '' '' @
                                    orElse (case returnFlight of None \<Rightarrow> None | Some f \<Rightarrow> flightNumber f)
                                      ''Flight'')]]
                        else [])
           in Inr (numberDays (days1 @ days2 @ days3))))"

section \<open>Must-do inserts (tripState.js)\<close>





section \<open>extractPrice (ItineraryPage.jsx, lines 2247--2255)\<close>

text \<open>
  JavaScript values as far as \<open>extractPrice\<close> tells them apart. A number is \<open>NaN\<close>, an
  infinity, or finite; \<open>extractPrice\<close> does no arithmetic, so a finite number is its exact
  value. \<open>parseFloat\<close> on strings is the engine's and is a parameter; on \<open>undefined\<close> and
  on a boolean it is \<open>NaN\<close>. Reading a property of \<open>null\<close> throws a \<open>TypeError\<close>, and
  \<open>typeof null\<close> is \<open>'object'\<close>.
\<close>

datatype jsnum = NaN | PosInf | NegInf | Fin rat

datatype jsval = Undefined | Null | Bool bool | Num jsnum | Str string | Obj "(string \<times> jsval) list"

datatype js_error = TypeError

fun truthyVal :: "jsval \<Rightarrow> bool" where
  "truthyVal Undefined = False"
| "truthyVal Null = False"
| "truthyVal (Bool b) = b"
| "truthyVal (Num n) = (n \<noteq> NaN \<and> n \<noteq> Fin 0)"
| "truthyVal (Str s) = (s \<noteq> [])"
| "truthyVal (Obj fs) = True"

definition getProp :: "jsval \<Rightarrow> string \<Rightarrow> jsval" where
  "getProp v k =
     (case v of
        Obj fs \<Rightarrow> (case map_of fs k of None \<Rightarrow> Undefined | Some x \<Rightarrow> x)
      | _ \<Rightarrow> Undefined)"

definition jsOr :: "jsval \<Rightarrow> jsval \<Rightarrow> jsval" where
  "jsOr a b = (if truthyVal a then a else b)"

definition extractPrice :: "(string \<Rightarrow> jsnum) \<Rightarrow> jsval \<Rightarrow> js_error + jsval" where
  "extractPrice parseFloat item =
     (if \<not> truthyVal item then Inr (Num (Fin 0))
      else (case getProp item ''price'' of
              Num n \<Rightarrow> Inr (Num n)
            | Obj fs \<Rightarrow>
                Inr (jsOr (getProp (Obj fs) ''amount'')
                      (jsOr (getProp (Obj fs) ''total'')
                        (jsOr (getProp (Obj fs) ''value'') (Num (Fin 0)))))
            | Null \<Rightarrow> Inl TypeError
            | Str s \<Rightarrow>
                (let parsed = parseFloat s
                 in Inr (Num (if parsed = NaN then Fin 0 else parsed)))
            | Undefined \<Rightarrow> Inr (Num (Fin 0))
            | Bool b \<Rightarrow> Inr (Num (Fin 0))))"

text \<open>A finite number that is at least 0.\<close>

definition finiteNonneg :: "jsval \<Rightarrow> bool" where
  "finiteNonneg v = (case v of Num (Fin r) \<Rightarrow> 0 \<le> r | _ \<Rightarrow> False)"

section \<open>CandidateSelector\<close>

text \<open>
  Modelled from the spec: the selector behind the optimize operation
  (\<open>/api/generateOptimalItinerary\<close>) is backend code that is not among the sources; only
  its request and response shapes and the three algorithm steps in amadeus_api.md are.
  The model follows the specification, section 4.4: enumerate the product of the three
  scored pools, an empty pool giving the slot \<open>null\<close>, which is left out of the price sum
  and of the mean; keep the combinations whose summed price is at most \<open>userBudget\<close>;
  return the one with the highest mean composite score, ties going to the lowest summed
  price; fail with \<open>NoCombinationWithinBudget\<close> when none is left.
\<close>

record scoredCandidate =
  price :: rat
  score :: rat

type_synonym combination = "scoredCandidate option \<times> scoredCandidate option \<times> scoredCandidate option"

datatype selector_error = NoCombinationWithinBudget

definition slotsOf :: "scoredCandidate list \<Rightarrow> scoredCandidate option list" where
  "slotsOf pool = (if pool = [] then [None] else map Some pool)"

definition combinations ::
  "scoredCandidate list \<Rightarrow> scoredCandidate list \<Rightarrow> scoredCandidate list \<Rightarrow> combination list" where
  "combinations flights hotels activities =
     concat (map (\<lambda>f. concat (map (\<lambda>h. map (\<lambda>a. (f, h, a)) (slotsOf activities)) (slotsOf hotels)))
               (slotsOf flights))"

definition slotList :: "combination \<Rightarrow> scoredCandidate list" where
  "slotList c = (case c of (f, h, a) \<Rightarrow> concat (map (\<lambda>x. case x of None \<Rightarrow> [] | Some y \<Rightarrow> [y]) [f, h, a]))"

definition summedPrice :: "combination \<Rightarrow> rat" where
  "summedPrice c = sum_list (map price (slotList c))"

definition meanScore :: "combination \<Rightarrow> rat" where
  "meanScore c =
     (if slotList c = [] then 0
      else sum_list (map score (slotList c)) / of_nat (length (slotList c)))"

definition better :: "combination \<Rightarrow> combination \<Rightarrow> bool" where
  "better c best =
     (meanScore c > meanScore best \<or>
      (meanScore c = meanScore best \<and> summedPrice c < summedPrice best))"

definition CandidateSelector ::
  "scoredCandidate list \<Rightarrow> scoredCandidate list \<Rightarrow> scoredCandidate list \<Rightarrow> rat \<Rightarrow>
   selector_error + combination" where
  "CandidateSelector flights hotels activities userBudget =
     (case filter (\<lambda>c. summedPrice c \<le> userBudget) (combinations flights hotels activities) of
        [] \<Rightarrow> Inl NoCombinationWithinBudget
      | c # cs \<Rightarrow> Inr (foldl (\<lambda>best x. if better x best then x else best) c cs))"

section \<open>Auxiliary definitions for the statements\<close>

text \<open>The days of the current copy before sorting and numbering, for a start \<open>s\<close> and a
  resolved end \<open>e\<close>; the resolved end, which falls back to the start; the number of
  interior days (\<open>actualMiddleDays\<close> of a round trip: the dates of the range other than
  the first and the last); the pool of regular activities after both filters
  (\<open>filteredRegularActivities\<close>); and the titles of the must-do items of an itinerary,
  day after day.\<close>

definition daysOf ::
  "zone \<Rightarrow> tripState \<Rightarrow> flight option \<Rightarrow> hotel option \<Rightarrow> activity list \<Rightarrow> flight option \<Rightarrow>
   int \<Rightarrow> int \<Rightarrow> itinerary_day list" where
  "daysOf z ts fl h acts rf s e =
     (if length (dateLoop z s e) > 0 then [mkDay (hd (dateLoop z s e)) (day1Items fl h)] else [])
     @ (if length (dateLoop z s e) > 1 then middleDaysOf ts h acts (e \<noteq> s) (dateLoop z s e) else [])
     @ (if e \<noteq> s \<and> length (dateLoop z s e) > 0 then [mkDay (last (dateLoop z s e)) (lastDayItems rf)] else [])"

definition endOf :: "(string \<Rightarrow> int option) \<Rightarrow> tripState \<Rightarrow> date_arg \<Rightarrow> int \<Rightarrow> int" where
  "endOf parse ts endDate s =
     (case resolveDate parse (tsEndDate ts) endDate of None \<Rightarrow> s | Some e \<Rightarrow> e)"

definition regularPool :: "tripState \<Rightarrow> activity list \<Rightarrow> activity list" where
  "regularPool ts acts =
     filter (prefFilter (tsPreferences ts))
       (filter (\<lambda>act. \<not> matchesMustDo (mustDoActivities ts) act) acts)"

definition mustDoTitles :: "itinerary_day list \<Rightarrow> string list" where
  "mustDoTitles ds = concat (map (\<lambda>d. map title (filter isMustDo (items d))) ds)"

definition interiorDayCount :: "zone \<Rightarrow> int \<Rightarrow> int \<Rightarrow> nat" where
  "interiorDayCount z s e = length (dateLoop z s e) - 2"

section \<open>Lemmas on the date range\<close>

lemma nextDay_gt: "t < nextDay z t"
  using nextDay [of z] by simp

lemma nextDay_utc: "nextDay utc t = t + DAY"
  by (simp add: utc.rep_eq localStep_def)

lemma nextDay_newYork:
  "nextDay newYork t =
     (if t < 1761976800000 then t + DAY
      else if t < 1762063200000 then t + DAY + 3600000
      else t + DAY)"
  by (simp add: newYork.rep_eq localStep_def DAY_def)

lemma dateLoop_empty: "e < s \<Longrightarrow> dateLoop z s e = []"
  by (subst dateLoop.simps) simp

lemma dateLoop_step: "s \<le> e \<Longrightarrow> dateLoop z s e = s # dateLoop z (nextDay z s) e"
  by (subst dateLoop.simps) simp

lemma dateLoop_lower: "x \<in> set (dateLoop z s e) \<Longrightarrow> s \<le> x"
proof (induction z s e rule: dateLoop.induct)
  case (1 z s e)
  show ?case
  proof (cases "s \<le> e")
    case False
    with 1(2) show ?thesis by (simp add: dateLoop_empty)
  next
    case True
    from 1(2) have "x = s \<or> x \<in> set (dateLoop z (nextDay z s) e)"
      by (simp add: dateLoop_step [OF True])
    then show ?thesis
    proof
      assume "x = s"
      then show ?thesis by simp
    next
      assume "x \<in> set (dateLoop z (nextDay z s) e)"
      from 1(1) [OF True this] nextDay_gt [of s z] show ?thesis by simp
    qed
  qed
qed

lemma dateLoop_ascending: "sorted_wrt (<) (dateLoop z s e)"
proof (induction z s e rule: dateLoop.induct)
  case (1 z s e)
  show ?case
  proof (cases "s \<le> e")
    case False
    then show ?thesis by (simp add: dateLoop_empty)
  next
    case True
    have "\<forall>x \<in> set (dateLoop z (nextDay z s) e). s < x"
    proof
      fix x
      assume "x \<in> set (dateLoop z (nextDay z s) e)"
      from dateLoop_lower [OF this] nextDay_gt [of s z] show "s < x" by simp
    qed
    with 1 [OF True] show ?thesis by (simp add: dateLoop_step [OF True])
  qed
qed

lemma dateLoop_single: "dateLoop z s s = [s]"
  using nextDay_gt [of s z] by (simp add: dateLoop_step dateLoop_empty)

lemma buildDateRange_objs:
  "buildDateRange z parse (DateObj (Some s)) (DateObj (Some e)) = dateLoop z s e"
  by (simp add: buildDateRange_def parseDate_def)

section \<open>Lemmas on the current assembler\<close>

lemma enumerate_items: "map (\<lambda>(i, d). items d) (enumerate n xs) = map items xs"
  by (induction xs arbitrary: n) simp_all

lemma numberDays_length: "length (numberDays ds) = length ds"
  by (simp add: numberDays_def)

lemma numberDays_items:
  assumes "sorted (map dateObj ds)"
  shows "map items (numberDays ds) = map items ds"
proof -
  have "sort_key dateObj ds = ds" using assms by (rule sort_key_id_if_sorted)
  then have "map items (numberDays ds) = map (\<lambda>(i, d). items d) (enumerate 0 ds)"
    by (simp add: numberDays_def split_def comp_def)
  then show ?thesis by (simp only: enumerate_items)
qed

lemma mustDoDistribution_length: "length (mustDoDistribution n rest) = n"
  by (induction n arbitrary: rest) (simp_all add: Let_def)

lemma mustDoDistribution_nth:
  "i < n \<Longrightarrow> mustDoDistribution n rest ! i = take 2 (drop (2 * i) rest)"
proof (induction n arbitrary: rest i)
  case 0
  then show ?case by simp
next
  case (Suc n)
  show ?case
  proof (cases i)
    case 0
    then show ?thesis by (simp add: Let_def min_def)
  next
    case (Suc j)
    with Suc.prems have j: "j < n" by simp
    have "take 2 (drop (2 * j) (drop (min 2 (length rest)) rest)) = take 2 (drop (2 * Suc j) rest)"
    proof (cases "2 \<le> length rest")
      case True
      then show ?thesis by (simp add: min_def add.commute)
    next
      case False
      then show ?thesis by (simp add: min_def)
    qed
    with Suc.IH [OF j] Suc show ?thesis by (simp add: Let_def)
  qed
qed

lemma len_mid: "length (butlast (tl dr)) = length dr - 2"
  by simp

lemma map_mkDay_dateObj: "map dateObj (map (\<lambda>i. mkDay (xs ! i) (f i)) [0 ..< length xs]) = xs"
  by (simp add: mkDay_def comp_def map_nth)

lemma map_mkDay_items: "map items (map (\<lambda>i. mkDay (xs ! i) (f i)) [0 ..< n]) = map f [0 ..< n]"
  by (simp add: mkDay_def comp_def)

lemma middleDaysOf_dateObj:
  "map dateObj (middleDaysOf ts h acts True dr) = butlast (tl dr)"
  unfolding middleDaysOf_def Let_def
  by (simp only: if_True map_mkDay_dateObj)

lemma middleDaysOf_items:
  "map items (middleDaysOf ts h acts True dr)
     = map (middleDayItems h (mustDoDistribution (length dr - 2) (mustDoActivities ts))
              (regularPool ts acts) (length dr - 2))
         [0 ..< length dr - 2]"
  unfolding middleDaysOf_def Let_def regularPool_def
  by (simp only: if_True map_mkDay_items len_mid)

lemma hd_butlast_last: "2 \<le> length xs \<Longrightarrow> hd xs # butlast (tl xs) @ [last xs] = xs"
  by (cases xs) (auto simp: Suc_le_eq)

lemma dateLoop_long_neq: "1 < length (dateLoop z s e) \<Longrightarrow> e \<noteq> s"
  by (auto simp: dateLoop_single)

lemma create_form:
  assumes "resolveDate parse (tsStartDate ts) startDate = Some s"
  shows "createDayByDayItinerary z parse ts fl h acts startDate endDate rf
           = Inr (numberDays (daysOf z ts fl h acts rf s (endOf parse ts endDate s)))"
  using assms
  by (simp add: createDayByDayItinerary_def Let_def buildDateRange_objs daysOf_def endOf_def)

lemma daysOf_empty: "e < s \<Longrightarrow> daysOf z ts fl h acts rf s e = []"
  by (simp add: daysOf_def dateLoop_empty)

lemma daysOf_oneway: "daysOf z ts fl h acts rf s s = [mkDay s (day1Items fl h)]"
  by (simp add: daysOf_def dateLoop_single)

lemma daysOf_short:
  assumes "s < e" "length (dateLoop z s e) = 1"
  shows "daysOf z ts fl h acts rf s e = [mkDay s (day1Items fl h), mkDay s (lastDayItems rf)]"
proof -
  have "dateLoop z s e = s # dateLoop z (nextDay z s) e" using assms(1) by (simp add: dateLoop_step)
  with assms(2) have "dateLoop z s e = [s]" by simp
  then show ?thesis using assms(1) by (simp add: daysOf_def)
qed

lemma daysOf_long:
  assumes "1 < length (dateLoop z s e)"
  shows "daysOf z ts fl h acts rf s e =
           mkDay (hd (dateLoop z s e)) (day1Items fl h)
           # middleDaysOf ts h acts True (dateLoop z s e)
           @ [mkDay (last (dateLoop z s e)) (lastDayItems rf)]"
proof -
  have "dateLoop z s e \<noteq> []" using assms by auto
  then show ?thesis using assms dateLoop_long_neq [OF assms] by (simp add: daysOf_def)
qed

lemma daysOf_long_dateObj:
  assumes "1 < length (dateLoop z s e)"
  shows "map dateObj (daysOf z ts fl h acts rf s e) = dateLoop z s e"
proof -
  have "2 \<le> length (dateLoop z s e)" using assms by simp
  from hd_butlast_last [OF this] show ?thesis
    by (simp add: daysOf_long [OF assms] middleDaysOf_dateObj mkDay_def)
qed

lemma window_cases:
  "e < s \<or> e = s \<or> (s < e \<and> length (dateLoop z s e) = 1) \<or> 1 < length (dateLoop z s e)"
proof (cases "s < e")
  case True
  then have "length (dateLoop z s e) = Suc (length (dateLoop z (nextDay z s) e))"
    by (simp add: dateLoop_step)
  then show ?thesis using True by linarith
next
  case False
  then show ?thesis by linarith
qed

lemma daysOf_sorted: "sorted (map dateObj (daysOf z ts fl h acts rf s e))"
proof -
  consider "e < s" | "e = s" | "s < e" "length (dateLoop z s e) = 1" | "1 < length (dateLoop z s e)"
    using window_cases [of e s z] by blast
  then show ?thesis
  proof cases
    case 1
    then show ?thesis by (simp add: daysOf_empty)
  next
    case 2
    then show ?thesis by (simp add: daysOf_oneway)
  next
    case 3
    then show ?thesis by (simp add: daysOf_short mkDay_def)
  next
    case 4
    have "sorted_wrt (<) (dateLoop z s e)" by (rule dateLoop_ascending)
    then have "sorted (dateLoop z s e)" by (rule strict_sorted_imp_sorted)
    then show ?thesis by (simp add: daysOf_long_dateObj [OF 4])
  qed
qed

lemma daysOf_length:
  "length (daysOf z ts fl h acts rf s e) =
     (if e < s then 0 else if e = s then 1 else max 2 (length (dateLoop z s e)))"
proof -
  consider "e < s" | "e = s" | "s < e" "length (dateLoop z s e) = 1" | "1 < length (dateLoop z s e)"
    using window_cases [of e s z] by blast
  then show ?thesis
  proof cases
    case 1
    then show ?thesis by (simp add: daysOf_empty)
  next
    case 2
    then show ?thesis by (simp add: daysOf_oneway)
  next
    case 3
    then show ?thesis by (simp add: daysOf_short)
  next
    case 4
    have "length (daysOf z ts fl h acts rf s e) = length (map dateObj (daysOf z ts fl h acts rf s e))"
      by simp
    also have "\<dots> = length (dateLoop z s e)" by (simp only: daysOf_long_dateObj [OF 4])
    finally show ?thesis using 4 dateLoop_long_neq [OF 4] dateLoop_empty [of e s z]
      by (auto simp: max_def)
  qed
qed

section \<open>The items of the interior days\<close>

lemma daysOf_long_items:
  assumes "1 < length (dateLoop z s e)"
  shows "map items (daysOf z ts fl h acts rf s e) =
           day1Items fl h
           # map (middleDayItems h
                    (mustDoDistribution (length (dateLoop z s e) - 2) (mustDoActivities ts))
                    (regularPool ts acts) (length (dateLoop z s e) - 2))
               [0 ..< length (dateLoop z s e) - 2]
           @ [lastDayItems rf]"
  by (simp only: daysOf_long [OF assms] list.map map_append middleDaysOf_items mkDay_def
        itinerary_day.simps)

lemma isMustDo_hotelItems: "filter isMustDo (hotelItems h) = []"
  by (simp add: hotelItems_def mkItem_def split: option.splits)

lemma isMustDo_day1Items: "filter isMustDo (day1Items fl h) = []"
  by (simp add: day1Items_def isMustDo_hotelItems flightNeeded_def mkItem_def split: option.splits)

lemma isMustDo_lastDayItems: "filter isMustDo (lastDayItems rf) = []"
  by (simp add: lastDayItems_def returnFlightNeeded_def mkItem_def Let_def split: option.splits)

lemma isMustDo_activityItems: "filter isMustDo (map activityItem xs) = []"
  by (induction xs) (simp_all add: activityItem_def mkItem_def)

lemma isMustDo_mustDoItems: "filter isMustDo (map mustDoItem xs) = map mustDoItem xs"
  by (induction xs) (simp_all add: mustDoItem_def)

lemma middleDayItems_mustDo:
  assumes "i < d"
  shows "filter isMustDo (middleDayItems h (mustDoDistribution d mds) pool d i)
           = map mustDoItem (take 2 (drop (2 * i) mds))"
  using assms
  by (simp add: middleDayItems_def Let_def mustDoDistribution_length mustDoDistribution_nth
        isMustDo_hotelItems isMustDo_activityItems isMustDo_mustDoItems openExploration_def)

lemma middleDayItems_no_pool:
  assumes "i < d"
  shows "middleDayItems h (mustDoDistribution d mds) [] d i
           = map mustDoItem (take 2 (drop (2 * i) mds))
             @ (if take 2 (drop (2 * i) mds) = [] then [openExploration] else [])
             @ hotelItems h"
proof -
  have "list_ex (\<lambda>i. itype i = Activity \<and> \<not> isOpenExploration i) (map mustDoItem xs) = (xs \<noteq> [])" for xs
    by (induction xs) (simp_all add: mustDoItem_def)
  then show ?thesis using assms
    by (simp add: middleDayItems_def Let_def mustDoDistribution_length mustDoDistribution_nth)
qed

lemma concat_pairs: "concat (map (\<lambda>i. take 2 (drop (2 * i) xs)) [0 ..< d]) = take (2 * d) xs"
proof (induction d)
  case 0
  then show ?case by simp
next
  case (Suc d)
  have "take (2 * d) xs @ take 2 (drop (2 * d) xs) = take (2 * d + 2) xs"
    by (simp only: take_add)
  with Suc show ?case by simp
qed

lemma mustDoTitles_map:
  "mustDoTitles ds = concat (map (\<lambda>its. map title (filter isMustDo its)) (map items ds))"
  by (simp add: mustDoTitles_def comp_def)

lemma daysOf_mustDoTitles:
  "mustDoTitles (daysOf z ts fl h acts rf s e)
     = map name (take (2 * (length (dateLoop z s e) - 2)) (mustDoActivities ts))"
proof (cases "1 < length (dateLoop z s e)")
  case True
  let ?d = "length (dateLoop z s e) - 2"
  let ?mds = "mustDoActivities ts"
  have mid: "map (\<lambda>its. map title (filter isMustDo its))
               (map (middleDayItems h (mustDoDistribution ?d ?mds) (regularPool ts acts) ?d) [0 ..< ?d])
             = map (\<lambda>i. map name (take 2 (drop (2 * i) ?mds))) [0 ..< ?d]"
    by (simp add: middleDayItems_mustDo mustDoItem_def)
  have "mustDoTitles (daysOf z ts fl h acts rf s e)
          = concat (map (\<lambda>i. map name (take 2 (drop (2 * i) ?mds))) [0 ..< ?d])"
    unfolding mustDoTitles_map daysOf_long_items [OF True]
    by (simp add: isMustDo_day1Items isMustDo_lastDayItems mid del: map_map)
  also have "\<dots> = map name (concat (map (\<lambda>i. take 2 (drop (2 * i) ?mds)) [0 ..< ?d]))"
    by (simp add: map_concat comp_def)
  also have "\<dots> = map name (take (2 * ?d) ?mds)"
    by (simp only: concat_pairs)
  finally show ?thesis .
next
  case False
  then have len: "length (dateLoop z s e) - 2 = 0" by simp
  have "mustDoTitles (daysOf z ts fl h acts rf s e) = []"
    using False
    by (auto simp: mustDoTitles_def daysOf_def mkDay_def isMustDo_day1Items isMustDo_lastDayItems)
  then show ?thesis by (simp add: len)
qed

lemma numberDays_mustDoTitles:
  assumes "sorted (map dateObj ds)"
  shows "mustDoTitles (numberDays ds) = mustDoTitles ds"
  by (simp only: mustDoTitles_map numberDays_items [OF assms])

lemma numberDays_nth_items:
  assumes "sorted (map dateObj ds)" "k < length ds"
  shows "items (numberDays ds ! k) = items (ds ! k)"
proof -
  have "items (numberDays ds ! k) = map items (numberDays ds) ! k"
    using assms(2) by (simp add: numberDays_length)
  also have "\<dots> = map items ds ! k" by (simp only: numberDays_items [OF assms(1)])
  also have "\<dots> = items (ds ! k)" using assms(2) by simp
  finally show ?thesis .
qed

lemma daysOf_interior_items:
  assumes "i < length (dateLoop z s e) - 2"
  shows "items (daysOf z ts fl h acts rf s e ! Suc i)
           = middleDayItems h
               (mustDoDistribution (length (dateLoop z s e) - 2) (mustDoActivities ts))
               (regularPool ts acts) (length (dateLoop z s e) - 2) i"
proof -
  have long: "1 < length (dateLoop z s e)" using assms by simp
  have k: "Suc i < length (daysOf z ts fl h acts rf s e)"
    using assms long dateLoop_long_neq [OF long] dateLoop_empty [of e s z]
    by (auto simp: daysOf_length)
  have "items (daysOf z ts fl h acts rf s e ! Suc i) = map items (daysOf z ts fl h acts rf s e) ! Suc i"
    using k by simp
  also have "\<dots> = middleDayItems h
               (mustDoDistribution (length (dateLoop z s e) - 2) (mustDoActivities ts))
               (regularPool ts acts) (length (dateLoop z s e) - 2) i"
    unfolding daysOf_long_items [OF long] using assms by (simp add: nth_append)
  finally show ?thesis .
qed

section \<open>C1: the budget-constrained selector\<close>

lemma better_trans: "better x y \<Longrightarrow> better y z \<Longrightarrow> better x z"
  by (auto simp: better_def)

lemma better_through: "better x r \<Longrightarrow> \<not> better c r \<Longrightarrow> better x c"
  by (auto simp: better_def)

lemma foldl_best:
  "foldl (\<lambda>best x. if better x best then x else best) c cs \<in> set (c # cs)
   \<and> (\<forall>x \<in> set (c # cs). \<not> better x (foldl (\<lambda>best x. if better x best then x else best) c cs))"
proof (induction cs arbitrary: c)
  case Nil
  show ?case by (simp add: better_def)
next
  case (Cons y cs)
  let ?step = "\<lambda>best x. if better x best then x else best"
  let ?c' = "?step c y"
  let ?r = "foldl ?step ?c' cs"
  have mem: "?r \<in> set (?c' # cs)" and opt: "\<forall>x \<in> set (?c' # cs). \<not> better x ?r"
    using Cons.IH [of ?c'] by blast+
  have c': "\<not> better ?c' ?r" using opt by simp
  have "\<not> better c ?r \<and> \<not> better y ?r"
  proof (cases "better y c")
    case True
    then have "\<not> better y ?r" using c' by simp
    moreover have "\<not> better c ?r"
      using True \<open>\<not> better y ?r\<close> better_trans by blast
    ultimately show ?thesis by simp
  next
    case False
    then have "\<not> better c ?r" using c' by simp
    moreover have "\<not> better y ?r"
      using False \<open>\<not> better c ?r\<close> better_through by blast
    ultimately show ?thesis by simp
  qed
  moreover have "?r \<in> set (c # y # cs)" using mem by auto
  ultimately show ?case using opt by simp
qed

text \<open>
  C1: whenever the selector returns a combination, it is one of the enumerated
  combinations, its summed price is at most \<open>userBudget\<close> (the bound is inclusive), and
  every combination within the budget has a mean composite score no higher, and if
  equal, a summed price no lower. The selector fails exactly when no combination is
  within the budget. In scenario C (budget 700, flights priced 500, 650 and 900, one
  hotel at 150, one activity at 50) the combination with the 500 flight, totalling
  exactly 700, is returned whatever the scores are.
\<close>

theorem selector_within_budget_optimal:
  "(CandidateSelector flights hotels activities userBudget = Inr c \<longrightarrow>
      c \<in> set (combinations flights hotels activities)
    \<and> summedPrice c \<le> userBudget
    \<and> (\<forall>x \<in> set (combinations flights hotels activities).
          summedPrice x \<le> userBudget \<longrightarrow>
            meanScore x \<le> meanScore c
          \<and> (meanScore x = meanScore c \<longrightarrow> summedPrice c \<le> summedPrice x)))
   \<and> (CandidateSelector flights hotels activities userBudget = Inl NoCombinationWithinBudget
        \<longleftrightarrow> (\<forall>x \<in> set (combinations flights hotels activities). \<not> summedPrice x \<le> userBudget))
   \<and> CandidateSelector
        [\<lparr>price = 500, score = s1\<rparr>, \<lparr>price = 650, score = s2\<rparr>, \<lparr>price = 900, score = s3\<rparr>]
        [\<lparr>price = 150, score = s4\<rparr>] [\<lparr>price = 50, score = s5\<rparr>] 700
      = Inr (Some \<lparr>price = 500, score = s1\<rparr>, Some \<lparr>price = 150, score = s4\<rparr>,
             Some \<lparr>price = 50, score = s5\<rparr>)"
proof (intro conjI impI)
  let ?surv = "filter (\<lambda>c. summedPrice c \<le> userBudget) (combinations flights hotels activities)"
  assume r: "CandidateSelector flights hotels activities userBudget = Inr c"
  then obtain c0 cs where surv: "?surv = c0 # cs"
    and c: "c = foldl (\<lambda>best x. if better x best then x else best) c0 cs"
    by (auto simp: CandidateSelector_def split: list.splits)
  have mem: "c \<in> set ?surv" and opt: "\<forall>x \<in> set ?surv. \<not> better x c"
    using foldl_best [of c0 cs] unfolding surv c by blast+
  show "c \<in> set (combinations flights hotels activities)" using mem by simp
  show "summedPrice c \<le> userBudget" using mem by simp
  show "\<forall>x \<in> set (combinations flights hotels activities).
          summedPrice x \<le> userBudget \<longrightarrow>
            meanScore x \<le> meanScore c
          \<and> (meanScore x = meanScore c \<longrightarrow> summedPrice c \<le> summedPrice x)"
  proof (intro ballI impI)
    fix x
    assume "x \<in> set (combinations flights hotels activities)" "summedPrice x \<le> userBudget"
    then have "x \<in> set ?surv" by simp
    with opt have "\<not> better x c" by blast
    then show "meanScore x \<le> meanScore c \<and> (meanScore x = meanScore c \<longrightarrow> summedPrice c \<le> summedPrice x)"
      by (auto simp: better_def)
  qed
next
  show "(CandidateSelector flights hotels activities userBudget = Inl NoCombinationWithinBudget)
        = (\<forall>x \<in> set (combinations flights hotels activities). \<not> summedPrice x \<le> userBudget)"
  proof -
    let ?surv = "filter (\<lambda>c. summedPrice c \<le> userBudget) (combinations flights hotels activities)"
    have "(CandidateSelector flights hotels activities userBudget = Inl NoCombinationWithinBudget)
            = (?surv = [])"
      by (simp add: CandidateSelector_def split: list.splits)
    also have "\<dots> = (\<forall>x \<in> set (combinations flights hotels activities). \<not> summedPrice x \<le> userBudget)"
      by (simp only: filter_empty_conv)
    finally show ?thesis .
  qed
next
  show "CandidateSelector
        [\<lparr>price = 500, score = s1\<rparr>, \<lparr>price = 650, score = s2\<rparr>, \<lparr>price = 900, score = s3\<rparr>]
        [\<lparr>price = 150, score = s4\<rparr>] [\<lparr>price = 50, score = s5\<rparr>] 700
      = Inr (Some \<lparr>price = 500, score = s1\<rparr>, Some \<lparr>price = 150, score = s4\<rparr>,
             Some \<lparr>price = 50, score = s5\<rparr>)"
    by (simp add: CandidateSelector_def combinations_def slotsOf_def summedPrice_def slotList_def)
qed

theorem selector_within_budget_optimal_witness:
  "CandidateSelector
     [\<lparr>price = 500, score = 1 / 2\<rparr>, \<lparr>price = 400, score = 1 / 2\<rparr>, \<lparr>price = 900, score = 1\<rparr>]
     [\<lparr>price = 150, score = 1 / 2\<rparr>] [] 700
   = Inr (Some \<lparr>price = 400, score = 1 / 2\<rparr>, Some \<lparr>price = 150, score = 1 / 2\<rparr>, None)
   \<and> summedPrice (Some \<lparr>price = 400, score = 1 / 2\<rparr>, Some \<lparr>price = 150, score = 1 / 2\<rparr>, None) \<le> 700
   \<and> meanScore (Some \<lparr>price = 500, score = 1 / 2\<rparr>, Some \<lparr>price = 150, score = 1 / 2\<rparr>, None)
       \<le> meanScore (Some \<lparr>price = 400, score = 1 / 2\<rparr>, Some \<lparr>price = 150, score = 1 / 2\<rparr>, None)"
proof -
  have r: "CandidateSelector
     [\<lparr>price = 500, score = 1 / 2\<rparr>, \<lparr>price = 400, score = 1 / 2\<rparr>, \<lparr>price = 900, score = 1\<rparr>]
     [\<lparr>price = 150, score = 1 / 2\<rparr>] [] 700
   = Inr (Some \<lparr>price = 400, score = 1 / 2\<rparr>, Some \<lparr>price = 150, score = 1 / 2\<rparr>, None)"
    by (simp add: CandidateSelector_def combinations_def slotsOf_def summedPrice_def slotList_def
        better_def meanScore_def)
  have m: "(Some \<lparr>price = 500, score = 1 / 2\<rparr>, Some \<lparr>price = 150, score = 1 / 2\<rparr>, None)
     \<in> set (combinations
          [\<lparr>price = 500, score = 1 / 2\<rparr>, \<lparr>price = 400, score = 1 / 2\<rparr>, \<lparr>price = 900, score = 1\<rparr>]
          [\<lparr>price = 150, score = 1 / 2\<rparr>] [])"
    by (simp add: combinations_def slotsOf_def)
  have p: "summedPrice (Some \<lparr>price = 500, score = 1 / 2\<rparr>, Some \<lparr>price = 150, score = 1 / 2\<rparr>, None) \<le> 700"
    by (simp add: summedPrice_def slotList_def)
  from selector_within_budget_optimal [of
      "[\<lparr>price = 500, score = 1 / 2\<rparr>, \<lparr>price = 400, score = 1 / 2\<rparr>, \<lparr>price = 900, score = 1\<rparr>]"
      "[\<lparr>price = 150, score = 1 / 2\<rparr>]" "[]" 700
      "(Some \<lparr>price = 400, score = 1 / 2\<rparr>, Some \<lparr>price = 150, score = 1 / 2\<rparr>, None)"] r m p
  show ?thesis by blast
qed

section \<open>C4: buildDateRange\<close>

text \<open>
  C4 promises \<open>(end - start in days) + 1\<close> dates, the last of them the end date, and the
  code says the same of its loop: \<open>Generate all dates from start to end (inclusive)\<close>. The
  loop does not keep that promise, because it steps in local time from the time of day of
  the start and compares time values. In America/New_York the ISO strings \<open>2025-10-30\<close>
  and \<open>2025-11-05\<close> parse to midnight UTC of those days, that is 20:00 local time of the
  day before. The step across the end of daylight-saving time on 2 November is 25 hours,
  so the later dates are at 01:00 UTC, and 5 November 01:00 UTC is after the end: the
  range has 6 dates instead of 7, and its last element is not the end date. Without any
  change of offset the same happens when the two dates differ in their time of day: in
  UTC, \<open>2025-11-20T12:00:00Z\<close> and \<open>2025-11-22T06:00:00Z\<close> give the two dates 20 and 21
  November 12:00, none on the calendar day of the end.
\<close>

theorem buildDateRange_misses_end:
  "buildDateRange newYork
     (\<lambda>x. if x = ''2025-10-30'' then Some 1761782400000
          else if x = ''2025-11-05'' then Some 1762300800000 else None)
     (DateStr ''2025-10-30'') (DateStr ''2025-11-05'')
     = [1761782400000, 1761868800000, 1761955200000, 1762041600000, 1762131600000,
        1762218000000]
   \<and> (1762300800000 - 1761782400000) div DAY + 1 = 7
   \<and> last [1761782400000, 1761868800000, 1761955200000, 1762041600000, 1762131600000,
           1762218000000] \<noteq> (1762300800000::int)
   \<and> buildDateRange utc
       (\<lambda>x. if x = ''2025-11-20T12:00:00Z'' then Some 1763640000000
            else if x = ''2025-11-22T06:00:00Z'' then Some 1763791200000 else None)
       (DateStr ''2025-11-20T12:00:00Z'') (DateStr ''2025-11-22T06:00:00Z'')
       = [1763640000000, 1763726400000]
   \<and> 1763726400000 div DAY \<noteq> 1763791200000 div DAY"
proof (intro conjI)
  show "buildDateRange newYork
     (\<lambda>x. if x = ''2025-10-30'' then Some 1761782400000
          else if x = ''2025-11-05'' then Some 1762300800000 else None)
     (DateStr ''2025-10-30'') (DateStr ''2025-11-05'')
     = [1761782400000, 1761868800000, 1761955200000, 1762041600000, 1762131600000,
        1762218000000]"
    by (simp add: buildDateRange_def parseDate_def dateLoop.simps nextDay_newYork DAY_def)
  show "(1762300800000 - 1761782400000) div DAY + 1 = 7"
    by (simp add: DAY_def)
  show "last [1761782400000, 1761868800000, 1761955200000, 1762041600000, 1762131600000,
           1762218000000] \<noteq> (1762300800000::int)"
    by simp
  show "buildDateRange utc
       (\<lambda>x. if x = ''2025-11-20T12:00:00Z'' then Some 1763640000000
            else if x = ''2025-11-22T06:00:00Z'' then Some 1763791200000 else None)
       (DateStr ''2025-11-20T12:00:00Z'') (DateStr ''2025-11-22T06:00:00Z'')
       = [1763640000000, 1763726400000]"
    by (simp add: buildDateRange_def parseDate_def dateLoop.simps nextDay_utc DAY_def)
  show "1763726400000 div DAY \<noteq> 1763791200000 div DAY"
    by (simp add: DAY_def)
qed

section \<open>C5: a one-way trip has one day\<close>

lemma numberDays_single: "numberDays [d] = [d\<lparr>day := 1\<rparr>]"
  by (simp add: numberDays_def)

lemma resolveDate_absent:
  "\<not> truthy tripDate \<Longrightarrow> \<not> truthy argD \<Longrightarrow> resolveDate parse tripDate argD = None"
  by (cases argD) (simp_all add: resolveDate_def truthy_def)

text \<open>
  C5: a one-way trip is one whose end date is absent (\<open>null\<close>, \<open>undefined\<close> or the empty
  string, in the trip store and as argument), does not parse, or resolves to the start
  date. For such a trip the assembler fails only if the start date does not resolve;
  otherwise the itinerary is exactly one day, numbered 1, on the start date, holding the
  day-1 items.
\<close>

theorem one_way_single_day:
  assumes "(\<not> truthy (tsEndDate ts) \<and> \<not> truthy endDate)
         \<or> resolveDate parse (tsEndDate ts) endDate = None
         \<or> resolveDate parse (tsEndDate ts) endDate = resolveDate parse (tsStartDate ts) startDate"
  shows "(resolveDate parse (tsStartDate ts) startDate = None \<longrightarrow>
            createDayByDayItinerary z parse ts fl h acts startDate endDate rf = Inl InvalidStartDate)
       \<and> (\<forall>s. resolveDate parse (tsStartDate ts) startDate = Some s \<longrightarrow>
            (\<exists>d. createDayByDayItinerary z parse ts fl h acts startDate endDate rf = Inr [d]
                 \<and> day d = 1 \<and> dateObj d = s \<and> items d = day1Items fl h))"
proof (intro conjI allI impI)
  assume "resolveDate parse (tsStartDate ts) startDate = None"
  then show "createDayByDayItinerary z parse ts fl h acts startDate endDate rf = Inl InvalidStartDate"
    by (simp add: createDayByDayItinerary_def)
next
  fix s
  assume s: "resolveDate parse (tsStartDate ts) startDate = Some s"
  have "resolveDate parse (tsEndDate ts) endDate = None
      \<or> resolveDate parse (tsEndDate ts) endDate = Some s"
    using assms s resolveDate_absent [of "tsEndDate ts" endDate parse] by auto
  then have e: "endOf parse ts endDate s = s"
    by (auto simp: endOf_def)
  have "createDayByDayItinerary z parse ts fl h acts startDate endDate rf
          = Inr [(mkDay s (day1Items fl h))\<lparr>day := 1\<rparr>]"
    by (simp only: create_form [OF s] e daysOf_oneway numberDays_single)
  then show "\<exists>d. createDayByDayItinerary z parse ts fl h acts startDate endDate rf = Inr [d]
                 \<and> day d = 1 \<and> dateObj d = s \<and> items d = day1Items fl h"
    by (simp add: mkDay_def)
qed

theorem one_way_single_day_witness:
  "\<exists>d. createDayByDayItinerary utc (\<lambda>_. None)
          \<lparr>mustDoActivities = [], tsPreferences = None,
           tsStartDate = Missing, tsEndDate = Missing\<rparr>
          None None [] (DateObj (Some 1763596800000)) Missing None = Inr [d]
      \<and> day d = 1 \<and> dateObj d = 1763596800000 \<and> items d = [flightNeeded]"
  using one_way_single_day [of
          "\<lparr>mustDoActivities = [], tsPreferences = None,
            tsStartDate = Missing, tsEndDate = Missing\<rparr>"
          Missing "\<lambda>_. None" "DateObj (Some 1763596800000)" utc None None "[]" None]
  by (simp add: resolveDate_def truthy_def parseDate_def day1Items_def hotelItems_def)

section \<open>C8: missing transport or lodging\<close>

text \<open>
  C8 promises that, once the start date parses, the assembler returns an itinerary whose
  day 1 carries the \<open>Flight Needed\<close> placeholder when there is no outbound flight. The
  current copy breaks this for a window whose end date lies before its start date: with
  the start on 27 Nov 2025, the end on 20 Nov 2025 and no flight, hotel or activity, the
  date range is empty, the guards \<open>dateRange.length > 0\<close> skip day 1 and the last day,
  and the itinerary has no day at all. The legacy copy returns day 1 on the same input,
  and the caller of the current copy counts the trip as \<open>Math.max(1, daysDiff + 1)\<close> days,
  \<open>Always at least 1 day\<close>.
\<close>

theorem reversed_window_no_day:
  "createDayByDayItinerary utc (\<lambda>_. None)
     \<lparr>mustDoActivities = [], tsPreferences = None,
      tsStartDate = Missing, tsEndDate = Missing\<rparr>
     None None [] (DateObj (Some 1764201600000)) (DateObj (Some 1763596800000)) None = Inr []
   \<and> createDayByDayItinerary_legacy (\<lambda>_. None)
       None None [] (DateObj (Some 1764201600000)) (DateObj (Some 1763596800000)) None
     = Inr [\<lparr>day = 1, dateObj = 1764201600000, items = [mkItem Flight ''Flight '']\<rparr>]"
proof
  show "createDayByDayItinerary utc (\<lambda>_. None)
     \<lparr>mustDoActivities = [], tsPreferences = None,
      tsStartDate = Missing, tsEndDate = Missing\<rparr>
     None None [] (DateObj (Some 1764201600000)) (DateObj (Some 1763596800000)) None = Inr []"
    by (simp add: createDayByDayItinerary_def resolveDate_def truthy_def parseDate_def
        buildDateRange_def dateLoop.simps numberDays_def)
  show "createDayByDayItinerary_legacy (\<lambda>_. None)
       None None [] (DateObj (Some 1764201600000)) (DateObj (Some 1763596800000)) None
     = Inr [\<lparr>day = 1, dateObj = 1764201600000, items = [mkItem Flight ''Flight '']\<rparr>]"
    by (simp add: createDayByDayItinerary_legacy_def argDate_def ceilInt_def DAY_def
        hotelItems_def orElse_def mkDay_def numberDays_def)
qed

section \<open>C2: every must-do activity on exactly one day\<close>

text \<open>
  C2, as stated, fails: with three must-do activities and a three-day window (one
  interior day) the plan takes two and the third is on no day.
\<close>

theorem mustDo_dropped_counterexample:
  "createDayByDayItinerary utc (\<lambda>_. None)
     \<lparr>mustDoActivities =
        [\<lparr>name = ''Louvre'', category = None\<rparr>,
         \<lparr>name = ''Eiffel Tower'', category = None\<rparr>,
         \<lparr>name = ''Seine Cruise'', category = None\<rparr>],
      tsPreferences = None,
      tsStartDate = Missing, tsEndDate = Missing\<rparr>
     None None [] (DateObj (Some 1763596800000)) (DateObj (Some 1763769600000)) None
   = Inr [\<lparr>day = 1, dateObj = 1763596800000, items = [flightNeeded]\<rparr>,
          \<lparr>day = 2, dateObj = 1763683200000,
           items = [mustDoItem \<lparr>name = ''Louvre'', category = None\<rparr>,
                    mustDoItem \<lparr>name = ''Eiffel Tower'', category = None\<rparr>]\<rparr>,
          \<lparr>day = 3, dateObj = 1763769600000, items = [returnFlightNeeded]\<rparr>]"
  by (simp add: createDayByDayItinerary_def resolveDate_def truthy_def parseDate_def
      buildDateRange_def dateLoop.simps nextDay_utc DAY_def middleDaysOf_def middleDayItems_def Let_def
      numberDays_def mkDay_def day1Items_def lastDayItems_def hotelItems_def mustDoItem_def
      numeral_2_eq_2)

text \<open>
  C2, amended: read day after day, the must-do items of the assembled itinerary are the
  first \<open>2 \<times> interiorDayCount\<close> entries of the must-do list, each once and in the order of
  the list; so when \<open>mustDoCount \<le> 2 \<times> interiorDayCount\<close> every must-do activity is
  placed exactly once and none is dropped; with pairwise different must-do names no
  must-do title occurs twice in the itinerary. Entries beyond \<open>2 \<times> interiorDayCount\<close> are
  on no day.
\<close>

theorem mustDo_placed_once:
  assumes "resolveDate parse (tsStartDate ts) startDate = Some s"
  shows "\<exists>days. createDayByDayItinerary z parse ts fl h acts startDate endDate rf = Inr days
           \<and> mustDoTitles days
               = map name (take (2 * interiorDayCount z s (endOf parse ts endDate s))
                            (mustDoActivities ts))
           \<and> (length (mustDoActivities ts) \<le> 2 * interiorDayCount z s (endOf parse ts endDate s)
                \<longrightarrow> mustDoTitles days = map name (mustDoActivities ts))
           \<and> (distinct (map name (mustDoActivities ts)) \<longrightarrow> distinct (mustDoTitles days))"
proof -
  let ?e = "endOf parse ts endDate s"
  let ?ds = "daysOf z ts fl h acts rf s ?e"
  have "mustDoTitles (numberDays ?ds) = mustDoTitles ?ds"
    by (rule numberDays_mustDoTitles) (rule daysOf_sorted)
  then have "mustDoTitles (numberDays ?ds)
      = map name (take (2 * (length (dateLoop z s ?e) - 2)) (mustDoActivities ts))"
    by (simp only: daysOf_mustDoTitles)
  moreover have "distinct (map name (take n (mustDoActivities ts)))"
    if "distinct (map name (mustDoActivities ts))" for n
    using that by (simp add: take_map [symmetric] del: take_map)
  ultimately show ?thesis
    by (simp add: create_form [OF assms] interiorDayCount_def)
qed

theorem mustDo_placed_once_witness:
  "\<exists>days. createDayByDayItinerary utc (\<lambda>_. None)
       \<lparr>mustDoActivities =
          [\<lparr>name = ''Louvre'', category = None\<rparr>, \<lparr>name = ''Eiffel Tower'', category = None\<rparr>],
        tsPreferences = None,
        tsStartDate = Missing, tsEndDate = Missing\<rparr>
       None None [] (DateObj (Some 1763596800000)) (DateObj (Some 1763769600000)) None = Inr days
     \<and> mustDoTitles days = [''Louvre'', ''Eiffel Tower'']
     \<and> distinct (mustDoTitles days)"
  using mustDo_placed_once [of "\<lambda>_. None"
       "\<lparr>mustDoActivities =
          [\<lparr>name = ''Louvre'', category = None\<rparr>, \<lparr>name = ''Eiffel Tower'', category = None\<rparr>],
         tsPreferences = None,
         tsStartDate = Missing, tsEndDate = Missing\<rparr>"
       "DateObj (Some 1763596800000)" 1763596800000 utc None None "[]"
       "DateObj (Some 1763769600000)" None]
  by (simp add: resolveDate_def truthy_def parseDate_def endOf_def interiorDayCount_def
      dateLoop.simps nextDay_utc DAY_def)

section \<open>C3: the distribution of must-do activities over the interior days\<close>

text \<open>
  C3 at three must-do activities and a five-day window (three interior days): the
  claimed count per interior day is \<open>min(2, ceil(3 / 3)) = 1\<close>, and the code computes
  \<open>mustDoPerDay = ceil(3 / 3)\<close> but never reads it: the plan loop takes
  \<open>min(2, remaining)\<close>, so the first interior day holds two must-do items, the second
  one, and the third none (it gets the \<open>Open Exploration\<close> filler).
\<close>

theorem mustDo_front_loaded:
  "min 2 (ceilDiv 3 3) = 1
   \<and> createDayByDayItinerary utc (\<lambda>_. None)
     \<lparr>mustDoActivities =
        [\<lparr>name = ''Louvre'', category = None\<rparr>,
         \<lparr>name = ''Eiffel Tower'', category = None\<rparr>,
         \<lparr>name = ''Seine Cruise'', category = None\<rparr>],
      tsPreferences = None,
      tsStartDate = Missing, tsEndDate = Missing\<rparr>
     None None [] (DateObj (Some 1763596800000)) (DateObj (Some 1763942400000)) None
   = Inr [\<lparr>day = 1, dateObj = 1763596800000, items = [flightNeeded]\<rparr>,
          \<lparr>day = 2, dateObj = 1763683200000,
           items = [mustDoItem \<lparr>name = ''Louvre'', category = None\<rparr>,
                    mustDoItem \<lparr>name = ''Eiffel Tower'', category = None\<rparr>]\<rparr>,
          \<lparr>day = 3, dateObj = 1763769600000,
           items = [mustDoItem \<lparr>name = ''Seine Cruise'', category = None\<rparr>]\<rparr>,
          \<lparr>day = 4, dateObj = 1763856000000, items = [openExploration]\<rparr>,
          \<lparr>day = 5, dateObj = 1763942400000, items = [returnFlightNeeded]\<rparr>]"
proof
  show "min 2 (ceilDiv 3 3) = 1"
    by (simp add: ceilDiv_def)
  show "createDayByDayItinerary utc (\<lambda>_. None)
     \<lparr>mustDoActivities =
        [\<lparr>name = ''Louvre'', category = None\<rparr>,
         \<lparr>name = ''Eiffel Tower'', category = None\<rparr>,
         \<lparr>name = ''Seine Cruise'', category = None\<rparr>],
      tsPreferences = None,
      tsStartDate = Missing, tsEndDate = Missing\<rparr>
     None None [] (DateObj (Some 1763596800000)) (DateObj (Some 1763942400000)) None
   = Inr [\<lparr>day = 1, dateObj = 1763596800000, items = [flightNeeded]\<rparr>,
          \<lparr>day = 2, dateObj = 1763683200000,
           items = [mustDoItem \<lparr>name = ''Louvre'', category = None\<rparr>,
                    mustDoItem \<lparr>name = ''Eiffel Tower'', category = None\<rparr>]\<rparr>,
          \<lparr>day = 3, dateObj = 1763769600000,
           items = [mustDoItem \<lparr>name = ''Seine Cruise'', category = None\<rparr>]\<rparr>,
          \<lparr>day = 4, dateObj = 1763856000000, items = [openExploration]\<rparr>,
          \<lparr>day = 5, dateObj = 1763942400000, items = [returnFlightNeeded]\<rparr>]"
    by (simp add: createDayByDayItinerary_def resolveDate_def truthy_def parseDate_def
        buildDateRange_def dateLoop.simps nextDay_utc DAY_def middleDaysOf_def middleDayItems_def Let_def
        numberDays_def mkDay_def day1Items_def lastDayItems_def hotelItems_def mustDoItem_def
        openExploration_def numeral_2_eq_2)
qed

section \<open>C6: an empty filtered pool\<close>

text \<open>
  C6, as stated, fails: with the category preference \<open>museum\<close> and the single activity
  ``Seine Cruise'' of category \<open>boat\<close>, the filter leaves nothing, and the interior day of
  a three-day window holds the \<open>Open Exploration\<close> filler only: the unfiltered pool is not
  used.
\<close>

theorem no_fallback_counterexample:
  "createDayByDayItinerary utc (\<lambda>_. None)
     \<lparr>mustDoActivities = [],
      tsPreferences = Some \<lparr>guidedTour = False, categories = [''museum'']\<rparr>,
      tsStartDate = Missing, tsEndDate = Missing\<rparr>
     None None
     [\<lparr>aname = Some ''Seine Cruise'', acategory = Some ''boat'', atype = None\<rparr>]
     (DateObj (Some 1763596800000)) (DateObj (Some 1763769600000)) None
   = Inr [\<lparr>day = 1, dateObj = 1763596800000, items = [flightNeeded]\<rparr>,
          \<lparr>day = 2, dateObj = 1763683200000, items = [openExploration]\<rparr>,
          \<lparr>day = 3, dateObj = 1763769600000, items = [returnFlightNeeded]\<rparr>]"
  by (simp add: createDayByDayItinerary_def resolveDate_def truthy_def parseDate_def
      buildDateRange_def dateLoop.simps nextDay_utc DAY_def middleDaysOf_def middleDayItems_def Let_def
      numberDays_def mkDay_def day1Items_def lastDayItems_def hotelItems_def
      matchesMustDo_def prefFilter_def orElse_def toLowerCase_def toLowerChar_def
      openExploration_def)

text \<open>
  C6, amended: when the filters leave no regular activity, no regular activity is placed
  on any interior day, filtered or not. An interior day holds only the must-do items
  assigned to it, at most two of them and all taken from the must-do list; when it has
  none it holds the single \<open>Open Exploration\<close> filler instead; the hotel stay follows if
  a hotel was selected. Which must-do entries go to which day is not part of this
  statement.
\<close>

theorem empty_filter_gives_filler:
  assumes "resolveDate parse (tsStartDate ts) startDate = Some s"
    and "regularPool ts acts = []"
    and "i < interiorDayCount z s (endOf parse ts endDate s)"
  shows "\<exists>days md. createDayByDayItinerary z parse ts fl h acts startDate endDate rf = Inr days
           \<and> set md \<subseteq> set (mustDoActivities ts) \<and> length md \<le> 2
           \<and> items (days ! Suc i)
               = map mustDoItem md @ (if md = [] then [openExploration] else []) @ hotelItems h"
proof -
  let ?e = "endOf parse ts endDate s"
  let ?ds = "daysOf z ts fl h acts rf s ?e"
  let ?md = "take 2 (drop (2 * i) (mustDoActivities ts))"
  have i: "i < length (dateLoop z s ?e) - 2" using assms(3) by (simp add: interiorDayCount_def)
  have long: "1 < length (dateLoop z s ?e)" using i by simp
  have k: "Suc i < length ?ds"
    using i long dateLoop_long_neq [OF long] dateLoop_empty [of ?e s z]
    by (auto simp: daysOf_length)
  have "items (numberDays ?ds ! Suc i) = items (?ds ! Suc i)"
    using daysOf_sorted k by (rule numberDays_nth_items)
  also have "\<dots> = middleDayItems h
               (mustDoDistribution (length (dateLoop z s ?e) - 2) (mustDoActivities ts))
               [] (length (dateLoop z s ?e) - 2) i"
    using daysOf_interior_items [OF i, of ts fl h acts rf] by (simp only: assms(2))
  also have "\<dots> = map mustDoItem ?md @ (if ?md = [] then [openExploration] else []) @ hotelItems h"
    using i by (rule middleDayItems_no_pool)
  finally have its: "items (numberDays ?ds ! Suc i)
      = map mustDoItem ?md @ (if ?md = [] then [openExploration] else []) @ hotelItems h" .
  have sub: "set ?md \<subseteq> set (mustDoActivities ts)"
    using set_take_subset [of 2 "drop (2 * i) (mustDoActivities ts)"]
          set_drop_subset [of "2 * i" "mustDoActivities ts"]
    by (rule subset_trans)
  have len: "length ?md \<le> 2" by simp
  have res: "createDayByDayItinerary z parse ts fl h acts startDate endDate rf = Inr (numberDays ?ds)"
    by (rule create_form [OF assms(1)])
  show ?thesis
  proof (intro exI conjI)
    show "createDayByDayItinerary z parse ts fl h acts startDate endDate rf = Inr (numberDays ?ds)"
      by (rule res)
    show "set ?md \<subseteq> set (mustDoActivities ts)" by (rule sub)
    show "length ?md \<le> 2" by (rule len)
    show "items (numberDays ?ds ! Suc i)
      = map mustDoItem ?md @ (if ?md = [] then [openExploration] else []) @ hotelItems h"
      by (rule its)
  qed
qed

theorem empty_filter_gives_filler_witness:
  "\<exists>days. createDayByDayItinerary utc (\<lambda>_. None)
       \<lparr>mustDoActivities = [],
        tsPreferences = Some \<lparr>guidedTour = False, categories = [''museum'']\<rparr>,
        tsStartDate = Missing, tsEndDate = Missing\<rparr>
       None None
       [\<lparr>aname = Some ''Seine Cruise'', acategory = Some ''boat'', atype = None\<rparr>]
       (DateObj (Some 1763596800000)) (DateObj (Some 1763769600000)) None = Inr days
     \<and> items (days ! Suc 0) = [openExploration]"
  using empty_filter_gives_filler [of "\<lambda>_. None"
       "\<lparr>mustDoActivities = [],
         tsPreferences = Some \<lparr>guidedTour = False, categories = [''museum'']\<rparr>,
         tsStartDate = Missing, tsEndDate = Missing\<rparr>"
       "DateObj (Some 1763596800000)" 1763596800000
       "[\<lparr>aname = Some ''Seine Cruise'', acategory = Some ''boat'', atype = None\<rparr>]"
       0 utc "DateObj (Some 1763769600000)" None None None]
  by (simp add: resolveDate_def truthy_def parseDate_def endOf_def interiorDayCount_def
      dateLoop.simps nextDay_utc DAY_def regularPool_def matchesMustDo_def prefFilter_def orElse_def
      toLowerCase_def toLowerChar_def hotelItems_def)

section \<open>C7: duplicates on insert into the must-do list\<close>









section \<open>C9: extractPrice\<close>

text \<open>
  C9, as stated, fails: a numeric price is returned as it is, so the negative price
  \<open>-5\<close> comes back as \<open>-5\<close>, which is not a number \<open>\<ge> 0\<close>.
\<close>

theorem extractPrice_negative_counterexample:
  "extractPrice (\<lambda>_. NaN) (Obj [(''price'', Num (Fin (- 5)))]) = Inr (Num (Fin (- 5)))
   \<and> \<not> finiteNonneg (Num (Fin (- 5)))"
  by (simp add: extractPrice_def getProp_def finiteNonneg_def)

text \<open>
  C9, amended: \<open>extractPrice\<close> returns 0 for a missing item and for a price that is
  missing, a boolean, or a string that \<open>parseFloat\<close> cannot read; it returns a numeric
  price as it is; it resolves an object price to the first truthy one of \<open>amount\<close>,
  \<open>total\<close>, \<open>value\<close> when that is a number, and to 0 when none is truthy, so
  \<open>{amount: 120}\<close> gives 120; and it parses a string price with \<open>parseFloat\<close>. The result
  is then a finite number \<open>\<ge> 0\<close> exactly when the numeric price, the selected nested
  number or the parsed string is one.
\<close>

theorem extractPrice_coercion:
  "(\<not> truthyVal item \<longrightarrow> extractPrice pf item = Inr (Num (Fin 0)))
   \<and> (truthyVal item \<longrightarrow>
        (getProp item ''price'' = Num n \<longrightarrow> extractPrice pf item = Inr (Num n))
      \<and> (getProp item ''price'' = Obj fs
          \<and> jsOr (getProp (Obj fs) ''amount'')
               (jsOr (getProp (Obj fs) ''total'') (jsOr (getProp (Obj fs) ''value'') (Num (Fin 0))))
             = Num n
          \<longrightarrow> extractPrice pf item = Inr (Num n))
      \<and> (getProp item ''price'' = Str s \<longrightarrow>
            extractPrice pf item = Inr (Num (if pf s = NaN then Fin 0 else pf s)))
      \<and> (getProp item ''price'' = Undefined \<or> getProp item ''price'' = Bool b \<longrightarrow>
            extractPrice pf item = Inr (Num (Fin 0))))
   \<and> extractPrice pf (Obj [(''price'', Obj [(''amount'', Num (Fin 120))])]) = Inr (Num (Fin 120))
   \<and> finiteNonneg (Num (Fin 120)) \<and> finiteNonneg (Num (Fin 0))
   \<and> (finiteNonneg (Num n) \<longleftrightarrow> (\<exists>r. n = Fin r \<and> 0 \<le> r))"
proof -
  have fin: "finiteNonneg (Num n) = (\<exists>r. n = Fin r \<and> 0 \<le> r)"
    by (cases n) (simp_all add: finiteNonneg_def)
  have ex: "finiteNonneg (Num (Fin 120))" "finiteNonneg (Num (Fin 0))"
    by (simp_all add: finiteNonneg_def)
  have res: "extractPrice pf (Obj [(''price'', Obj [(''amount'', Num (Fin 120))])]) = Inr (Num (Fin 120))"
    by (simp add: extractPrice_def getProp_def jsOr_def)
  have "\<not> truthyVal item \<longrightarrow> extractPrice pf item = Inr (Num (Fin 0))"
    by (simp add: extractPrice_def)
  moreover have "truthyVal item \<longrightarrow>
        (getProp item ''price'' = Num n \<longrightarrow> extractPrice pf item = Inr (Num n))
      \<and> (getProp item ''price'' = Obj fs
          \<and> jsOr (getProp (Obj fs) ''amount'')
               (jsOr (getProp (Obj fs) ''total'') (jsOr (getProp (Obj fs) ''value'') (Num (Fin 0))))
             = Num n
          \<longrightarrow> extractPrice pf item = Inr (Num n))
      \<and> (getProp item ''price'' = Str s \<longrightarrow>
            extractPrice pf item = Inr (Num (if pf s = NaN then Fin 0 else pf s)))
      \<and> (getProp item ''price'' = Undefined \<or> getProp item ''price'' = Bool b \<longrightarrow>
            extractPrice pf item = Inr (Num (Fin 0)))"
    by (auto simp: extractPrice_def Let_def)
  ultimately show ?thesis using fin ex res by blast
qed

theorem extractPrice_coercion_witness:
  "extractPrice (\<lambda>s. if s = ''12.5'' then Fin (25 / 2) else NaN) (Obj [(''price'', Str ''12.5'')])
     = Inr (Num (Fin (25 / 2)))
   \<and> extractPrice (\<lambda>s. if s = ''12.5'' then Fin (25 / 2) else NaN) (Obj [(''price'', Str ''n/a'')])
     = Inr (Num (Fin 0))
   \<and> extractPrice (\<lambda>s. NaN) (Obj [(''price'', Num (Fin 80))]) = Inr (Num (Fin 80))
   \<and> extractPrice (\<lambda>s. NaN) (Obj [(''price'', Obj [(''total'', Num (Fin 99))])]) = Inr (Num (Fin 99))
   \<and> extractPrice (\<lambda>s. NaN) Null = Inr (Num (Fin 0))"
  using extractPrice_coercion [of "Obj [(''price'', Str ''12.5'')]"
          "\<lambda>s. if s = ''12.5'' then Fin (25 / 2) else NaN" "Fin 0" "[]" "''12.5''" True]
        extractPrice_coercion [of "Obj [(''price'', Str ''n/a'')]"
          "\<lambda>s. if s = ''12.5'' then Fin (25 / 2) else NaN" "Fin 0" "[]" "''n/a''" True]
        extractPrice_coercion [of "Obj [(''price'', Num (Fin 80))]" "\<lambda>s. NaN" "Fin 80" "[]" "[]" True]
        extractPrice_coercion [of "Obj [(''price'', Obj [(''total'', Num (Fin 99))])]" "\<lambda>s. NaN"
          "Fin 99" "[(''total'', Num (Fin 99))]" "[]" True]
        extractPrice_coercion [of Null "\<lambda>s. NaN" "Fin 0" "[]" "[]" True]
  by (simp add: getProp_def jsOr_def)

section \<open>C10: the legacy copy and the current copy\<close>

text \<open>The legacy copy returns at most 7 days on any input: day 1, at most 5 interior days,
  and the last day.\<close>

lemma legacyMiddleDay_length: "length (legacyMiddleDay h acts s e m i) \<le> 1"
  by (simp add: legacyMiddleDay_def Let_def)

lemma concat_short:
  assumes "\<And>x. length (f x) \<le> 1"
  shows "length (concat (map f xs)) \<le> length xs"
proof (induction xs)
  case Nil
  then show ?case by simp
next
  case (Cons x xs)
  have "length (f x) \<le> 1" by (rule assms)
  with Cons show ?case by simp
qed

lemma legacyMiddleDays_length: "length (legacyMiddleDays h acts s e dd) \<le> 5"
proof -
  define m where "m = nat (min (dd - 1) 5)"
  have "length (concat (map (legacyMiddleDay h acts s e m) [1 ..< m + 1])) \<le> length [1 ..< m + 1]"
    by (rule concat_short) (rule legacyMiddleDay_length)
  moreover have "length [1 ..< m + 1] = m"
    by (simp del: upt_Suc)
  moreover have "m \<le> 5" by (simp add: m_def)
  ultimately have "length (concat (map (legacyMiddleDay h acts s e m) [1 ..< m + 1])) \<le> 5"
    by linarith
  then show ?thesis by (simp only: legacyMiddleDays_def Let_def m_def)
qed

lemma legacy_length:
  assumes "createDayByDayItinerary_legacy parse fl h acts startDate endDate rf = Inr days"
  shows "length days \<le> 7"
proof (cases "argDate parse startDate")
  case None
  with assms show ?thesis by (simp add: createDayByDayItinerary_legacy_def)
next
  case (Some s)
  define e where "e = (case argDate parse endDate of None \<Rightarrow> s | Some e \<Rightarrow> e)"
  define dd where "dd = (if e \<noteq> s then max 1 (ceilInt (e - s) DAY) else 1)"
  have "length days = 1 + (if e \<noteq> s \<and> dd > 1 then length (legacyMiddleDays h acts s e dd) else 0)
                        + (if e \<noteq> s \<and> e > s then 1 else 0)"
    using assms Some
    by (auto simp: createDayByDayItinerary_legacy_def Let_def numberDays_length e_def dd_def)
  moreover have "length (legacyMiddleDays h acts s e dd) \<le> 5"
    by (rule legacyMiddleDays_length)
  ultimately show ?thesis by (simp split: if_splits)
qed

text \<open>
  C10 promises that the two copies return different day counts for every round-trip
  window longer than 7 days, the current copy holding one day per calendar date of the
  window and the legacy copy at most 7. The current copy takes its days from
  \<open>buildDateRange\<close>, whose loop can stop short of the end date. In America/New_York the
  window from \<open>2025-10-29\<close> to \<open>2025-11-05\<close> (midnight UTC of both days, 8 calendar dates)
  crosses the end of daylight-saving time: the range has 7 dates, the current copy
  returns 7 days, the last of them dated 4 November 01:00 UTC and not the end date, and
  the legacy copy returns 7 days as well (the start, the five following days and the
  end). The day counts are equal.
\<close>

theorem copies_same_count:
  "createDayByDayItinerary newYork (\<lambda>_. None)
     \<lparr>mustDoActivities = [], tsPreferences = None,
      tsStartDate = Missing, tsEndDate = Missing\<rparr>
     None None [] (DateObj (Some 1761696000000)) (DateObj (Some 1762300800000)) None
   = Inr [\<lparr>day = 1, dateObj = 1761696000000, items = [flightNeeded]\<rparr>,
          \<lparr>day = 2, dateObj = 1761782400000, items = [openExploration]\<rparr>,
          \<lparr>day = 3, dateObj = 1761868800000, items = [openExploration]\<rparr>,
          \<lparr>day = 4, dateObj = 1761955200000, items = [openExploration]\<rparr>,
          \<lparr>day = 5, dateObj = 1762041600000, items = [openExploration]\<rparr>,
          \<lparr>day = 6, dateObj = 1762131600000, items = [openExploration]\<rparr>,
          \<lparr>day = 7, dateObj = 1762218000000, items = [returnFlightNeeded]\<rparr>]
   \<and> createDayByDayItinerary_legacy (\<lambda>_. None)
       None None [] (DateObj (Some 1761696000000)) (DateObj (Some 1762300800000)) None
   = Inr [\<lparr>day = 1, dateObj = 1761696000000, items = [mkItem Flight ''Flight '']\<rparr>,
          \<lparr>day = 2, dateObj = 1761782400000, items = []\<rparr>,
          \<lparr>day = 3, dateObj = 1761868800000, items = []\<rparr>,
          \<lparr>day = 4, dateObj = 1761955200000, items = []\<rparr>,
          \<lparr>day = 5, dateObj = 1762041600000, items = []\<rparr>,
          \<lparr>day = 6, dateObj = 1762128000000, items = []\<rparr>,
          \<lparr>day = 7, dateObj = 1762300800000, items = [mkItem Flight ''Return Flight'']\<rparr>]
   \<and> 1762300800000 div DAY - 1761696000000 div DAY + 1 = 8"
proof (intro conjI)
  show "createDayByDayItinerary newYork (\<lambda>_. None)
     \<lparr>mustDoActivities = [], tsPreferences = None,
      tsStartDate = Missing, tsEndDate = Missing\<rparr>
     None None [] (DateObj (Some 1761696000000)) (DateObj (Some 1762300800000)) None
   = Inr [\<lparr>day = 1, dateObj = 1761696000000, items = [flightNeeded]\<rparr>,
          \<lparr>day = 2, dateObj = 1761782400000, items = [openExploration]\<rparr>,
          \<lparr>day = 3, dateObj = 1761868800000, items = [openExploration]\<rparr>,
          \<lparr>day = 4, dateObj = 1761955200000, items = [openExploration]\<rparr>,
          \<lparr>day = 5, dateObj = 1762041600000, items = [openExploration]\<rparr>,
          \<lparr>day = 6, dateObj = 1762131600000, items = [openExploration]\<rparr>,
          \<lparr>day = 7, dateObj = 1762218000000, items = [returnFlightNeeded]\<rparr>]"
    by (simp add: createDayByDayItinerary_def resolveDate_def truthy_def parseDate_def
        buildDateRange_def dateLoop.simps nextDay_newYork DAY_def middleDaysOf_def
        middleDayItems_def Let_def numberDays_def mkDay_def day1Items_def lastDayItems_def
        hotelItems_def openExploration_def upt_rec)
  show "createDayByDayItinerary_legacy (\<lambda>_. None)
       None None [] (DateObj (Some 1761696000000)) (DateObj (Some 1762300800000)) None
   = Inr [\<lparr>day = 1, dateObj = 1761696000000, items = [mkItem Flight ''Flight '']\<rparr>,
          \<lparr>day = 2, dateObj = 1761782400000, items = []\<rparr>,
          \<lparr>day = 3, dateObj = 1761868800000, items = []\<rparr>,
          \<lparr>day = 4, dateObj = 1761955200000, items = []\<rparr>,
          \<lparr>day = 5, dateObj = 1762041600000, items = []\<rparr>,
          \<lparr>day = 6, dateObj = 1762128000000, items = []\<rparr>,
          \<lparr>day = 7, dateObj = 1762300800000, items = [mkItem Flight ''Return Flight'']\<rparr>]"
    by (simp add: createDayByDayItinerary_legacy_def argDate_def ceilInt_def DAY_def
        legacyMiddleDays_def legacyMiddleDay_def ceilDiv_def slice_def Let_def
        hotelItems_def orElse_def mkDay_def numberDays_def upt_rec)
  show "1762300800000 div DAY - 1761696000000 div DAY + 1 = 8"
    by (simp add: DAY_def)
qed

end
